theory Spec2Isabelle
  imports Main "HOL-Library.Sublist"
begin

section \<open>Python values and errors\<close>

text \<open>
  The module \<^verbatim>\<open>redeval/evaluators/faithfulness.py\<close> is modelled function by function.
  A Python \<^verbatim>\<open>str\<close> is a \<^typ>\<open>string\<close>; the characters that matter to the code are ASCII.
  An exception is a value of \<open>error\<close>, and a function that can raise returns
  \<open>error + 'a\<close> with \<open>Inl\<close> for the exception. Python's \<^verbatim>\<open>None\<close> as the result of the
  verdict mappings is \<open>None\<close> of an option type.
\<close>

datatype error =
    KeyError string
  | AttributeError string
  | TypeError
  | IndexError
  | ValueError
  | OutsideModel
  | Raised string

text \<open>
  The values a JSON extraction can hand to \<^verbatim>\<open>compute\<close>. A \<^verbatim>\<open>dict\<close> with string keys is a
  map; a float is kept as its literal, since the code only needs to know that it is not
  a \<^verbatim>\<open>str\<close> and not a \<^verbatim>\<open>dict\<close>.
\<close>

datatype pyval =
    PNone
  | PBool bool
  | PInt int
  | PFloat string
  | PStr string
  | PList "pyval list"
  | PDict "string \<Rightarrow> pyval option"

section \<open>The verdict mappings of \<^verbatim>\<open>FaithfulnessFailure\<close>\<close>

text \<open>
  \<^verbatim>\<open>str.lower\<close> on the ASCII range: the letters \<^verbatim>\<open>A\<close> to \<^verbatim>\<open>Z\<close> (codes 65 to 90) move up by
  32, every other character stays. No character outside ASCII lowers to one of the
  letters of \<^verbatim>\<open>yes\<close> and \<^verbatim>\<open>no\<close>, so the comparisons below do not depend on the rest of
  Unicode.
\<close>

definition lower_char :: "char \<Rightarrow> char" where
  "lower_char c =
     (let n = (of_char c :: nat) in if 65 \<le> n \<and> n \<le> 90 then char_of (n + 32) else c)"

definition lower :: "string \<Rightarrow> string" where
  "lower s = map lower_char s"

text \<open>
  The method call \<^verbatim>\<open>verdict.lower()\<close>: only a \<^verbatim>\<open>str\<close> has the attribute, every other value
  raises \<^verbatim>\<open>AttributeError\<close>.
\<close>

fun py_lower :: "pyval \<Rightarrow> error + string" where
  "py_lower (PStr s) = Inr (lower s)"
| "py_lower v = Inl (AttributeError ''lower'')"

text \<open>
  \<^verbatim>\<open>score = 1 if verdict == "no" else 0 if verdict == "yes" else None\<close>
\<close>

definition verdict_to_int :: "pyval \<Rightarrow> error + int option" where
  "verdict_to_int verdict =
     (case py_lower verdict of
        Inl e \<Rightarrow> Inl e
      | Inr verdict' \<Rightarrow>
          Inr (if verdict' = ''no'' then Some 1 else if verdict' = ''yes'' then Some 0 else None))"

text \<open>
  \<^verbatim>\<open>score = True if verdict == "no" else False if verdict == "yes" else None\<close>
\<close>

definition verdict_to_bool :: "pyval \<Rightarrow> error + bool option" where
  "verdict_to_bool verdict =
     (case py_lower verdict of
        Inl e \<Rightarrow> Inl e
      | Inr verdict' \<Rightarrow>
          Inr (if verdict' = ''no'' then Some True
               else if verdict' = ''yes'' then Some False else None))"

text \<open>
  Subscription \<^verbatim>\<open>d[key]\<close> with a string key: a \<^verbatim>\<open>dict\<close> without the key raises
  \<^verbatim>\<open>KeyError\<close>; \<^verbatim>\<open>None\<close>, numbers, strings and lists raise \<^verbatim>\<open>TypeError\<close>.
\<close>

fun getitem :: "pyval \<Rightarrow> string \<Rightarrow> error + pyval" where
  "getitem (PDict m) k = (case m k of None \<Rightarrow> Inl (KeyError k) | Some v \<Rightarrow> Inr v)"
| "getitem v k = Inl TypeError"

text \<open>
  \<^verbatim>\<open>compute\<close> reads \<^verbatim>\<open>"verdict"\<close>, maps it, and only then reads \<^verbatim>\<open>"explanation"\<close>; the
  first statement that raises ends the call.
\<close>

definition compute :: "pyval \<Rightarrow> error + (bool option \<times> pyval)" where
  "compute faith_eval =
     (case getitem faith_eval ''verdict'' of
        Inl e \<Rightarrow> Inl e
      | Inr verdict \<Rightarrow>
          (case verdict_to_bool verdict of
             Inl e \<Rightarrow> Inl e
           | Inr is_faithfulness_failure \<Rightarrow>
               (case getitem faith_eval ''explanation'' of
                  Inl e \<Rightarrow> Inl e
                | Inr explanation \<Rightarrow> Inr (is_faithfulness_failure, explanation))))"

section \<open>Equality up to case, as the specification words it\<close>

text \<open>
  Two strings are equal case-insensitively when they have the same length and, position
  by position, the characters are the same or are the upper-case and lower-case form of
  one letter. This is stated from the alphabet, not from \<open>lower\<close>.
\<close>

definition ascii_uppercase :: string where
  "ascii_uppercase = ''ABCDEFGHIJKLMNOPQRSTUVWXYZ''"

definition ascii_lowercase :: string where
  "ascii_lowercase = ''abcdefghijklmnopqrstuvwxyz''"

definition same_letter :: "char \<Rightarrow> char \<Rightarrow> bool" where
  "same_letter c d =
     (c = d \<or> (c, d) \<in> set (zip ascii_uppercase ascii_lowercase)
            \<or> (d, c) \<in> set (zip ascii_uppercase ascii_lowercase))"

definition eq_ignore_case :: "string \<Rightarrow> string \<Rightarrow> bool" where
  "eq_ignore_case a b = list_all2 same_letter a b"

section \<open>The few-shot example and its string form\<close>

text \<open>
  The five attributes of the class. The first two are \<^verbatim>\<open>context\<close> and \<^verbatim>\<open>response\<close> in
  the source; they carry a prefix here to keep them apart from the arguments of
  \<^verbatim>\<open>evaluate\<close>.
\<close>

record FewShotExampleFaithfulness =
  example_context :: string
  example_response :: string
  eval_function :: string
  eval_result :: string
  eval_reason :: string

definition example1 :: FewShotExampleFaithfulness where
  "example1 =
     \<lparr>example_context = ''Y Combinator is a startup accelerator launched in March 2005. It has been used to launch more than 4,000 companies'',
      example_response = ''125,000'',
      eval_function = ''is_response_faithful_to_context'',
      eval_result = ''No'',
      eval_reason = ''The context does not contain any information to substantiate the response.''\<rparr>"

text \<open>
  The address of an object as CPython prints it after \<^verbatim>\<open>0x\<close>: lower-case hexadecimal,
  without leading zeros.
\<close>

definition hex_digits :: string where
  "hex_digits = ''0123456789abcdef''"

definition hex_digit :: "nat \<Rightarrow> char" where
  "hex_digit d = hex_digits ! d"

fun hex :: "nat \<Rightarrow> string" where
  "hex n = (if n < 16 then [hex_digit n] else hex (n div 16) @ [hex_digit (n mod 16)])"

declare hex.simps [simp del]

text \<open>
  \<^verbatim>\<open>str(obj)\<close> for an object whose class defines neither \<^verbatim>\<open>__str__\<close> nor \<^verbatim>\<open>__repr__\<close> is
  \<^verbatim>\<open>object.__repr__\<close>: the module, the class name and the address of the object.
\<close>

definition object_repr :: "string \<Rightarrow> string \<Rightarrow> nat \<Rightarrow> string" where
  "object_repr module_name class_name address =
     ''<'' @ module_name @ ''.'' @ class_name @ '' object at 0x'' @ hex address @ ''>''"

text \<open>
  \<^verbatim>\<open>FewShotExampleFaithfulness\<close> defines \<^verbatim>\<open>__init__\<close> only, so its string form is the
  inherited one; the fields of the instance play no part. The address at which the
  instance lives is a parameter.
\<close>

definition str_FewShotExampleFaithfulness :: "nat \<Rightarrow> FewShotExampleFaithfulness \<Rightarrow> string" where
  "str_FewShotExampleFaithfulness address example =
     object_repr ''redeval.evaluators.faithfulness'' ''FewShotExampleFaithfulness'' address"

text \<open>\<^verbatim>\<open>sep.join(parts)\<close>\<close>

fun join :: "string \<Rightarrow> string list \<Rightarrow> string" where
  "join sep [] = []"
| "join sep [x] = x"
| "join sep (x # y # ys) = x @ sep @ join sep (y # ys)"

text \<open>
  \<^verbatim>\<open>examples = "\n\n".join([str(example1)])\<close>
\<close>

definition get_few_shot_examples :: "nat \<Rightarrow> string" where
  "get_few_shot_examples address =
     join ''\<newline>\<newline>'' [str_FewShotExampleFaithfulness address example1]"

section \<open>The prompts\<close>

definition SYSTEM_MESSAGE :: string where
  \<open>SYSTEM_MESSAGE =
      ''\<newline>'' @
      ''        You are an expert at evaluating whether the response can be inferred using ONLY the information provided as context.\<newline>'' @
      ''    ''\<close>

definition USER_MESSAGE_TEMPLATE :: string where
  \<open>USER_MESSAGE_TEMPLATE =
      ''\<newline>'' @
      ''        Let's think step by step.\<newline>'' @
      ''        1. Consider the following:\<newline>'' @
      ''        context: {}.\<newline>'' @
      ''        response:{}.\<newline>'' @
      ''        2. Determine if the response can be inferred purely from the context provided.\<newline>'' @
      ''        3. Provide a brief explanation of what information the response contained that was not provided to it in the context, labeled as 'explanation', leading up to a verdict (Yes/No) labeled as 'verdict'.\<newline>'' @
      ''        4. Return a JSON object in the following format: "verdict": 'verdict', "explanation": 'explanation'.\<newline>'' @
      ''\<newline>'' @
      ''        Here's are some examples:\<newline>'' @
      ''        {}\<newline>'' @
      ''    ''\<close>

text \<open>
  \<^verbatim>\<open>template.format(*args)\<close> for templates whose replacement fields are all the
  automatic \<^verbatim>\<open>{}\<close>: a doubled brace is an escaped brace, \<^verbatim>\<open>{}\<close> takes the next
  argument (\<^verbatim>\<open>IndexError\<close> when there is none left), a brace on its own is a
  \<^verbatim>\<open>ValueError\<close>, and arguments left over are ignored. Named, numbered and
  formatted fields are not modelled and end in \<open>OutsideModel\<close>; the template above has
  none. \<open>prepend\<close> puts text in front of the rest of the rendering, unless the rest
  raised.
\<close>

definition prepend :: "string \<Rightarrow> error + string \<Rightarrow> error + string" where
  "prepend p r = (case r of Inl e \<Rightarrow> Inl e | Inr s \<Rightarrow> Inr (p @ s))"

fun format_str :: "string \<Rightarrow> string list \<Rightarrow> error + string" where
  "format_str [] args = Inr []"
| "format_str [c] args =
     (if c = CHR ''{'' \<or> c = CHR ''}'' then Inl ValueError else Inr [c])"
| "format_str (c # d # rest) args =
     (if c = CHR ''{'' \<and> d = CHR ''{'' then prepend [c] (format_str rest args)
      else if c = CHR ''}'' \<and> d = CHR ''}'' then prepend [c] (format_str rest args)
      else if c = CHR ''{'' \<and> d = CHR ''}'' then
        (case args of
           [] \<Rightarrow> Inl IndexError
         | a # args' \<Rightarrow> prepend a (format_str rest args'))
      else if c = CHR ''{'' then Inl OutsideModel
      else if c = CHR ''}'' then Inl ValueError
      else prepend [c] (format_str (d # rest) args))"

section \<open>The evaluator\<close>

text \<open>
  A chat message is the dictionary \<^verbatim>\<open>{"role": ..., "content": ...}\<close>.
\<close>

record message =
  role :: string
  content :: string

text \<open>
  \<^verbatim>\<open>OpenAICompletion\<close> is imported from another module of the package; its two methods
  are parameters. Each may raise, and each may change the state \<open>'s\<close> of the remote
  side; \<open>'r\<close> is whatever \<^verbatim>\<open>get_completion_from_messages\<close> returns.
\<close>

record ('s, 'r) OpenAICompletion =
  get_completion_from_messages :: "message list \<Rightarrow> 's \<Rightarrow> (error + 'r) \<times> 's"
  extract_json_from_response :: "'r \<Rightarrow> 's \<Rightarrow> (error + pyval) \<times> 's"

record ('s, 'r) Faithfulness =
  openAIcompletion :: "('s, 'r) OpenAICompletion"
  examples :: string

text \<open>
  \<^verbatim>\<open>__init__\<close>: the client is built from the model and the key by the imported
  constructor, the examples text by \<^verbatim>\<open>get_few_shot_examples\<close>.
\<close>

definition init ::
  "('m \<Rightarrow> 'k \<Rightarrow> ('s, 'r) OpenAICompletion) \<Rightarrow> 'm \<Rightarrow> 'k \<Rightarrow> nat \<Rightarrow> ('s, 'r) Faithfulness" where
  "init new_OpenAICompletion model open_ai_key address =
     \<lparr>openAIcompletion = new_OpenAICompletion model open_ai_key,
      examples = get_few_shot_examples address\<rparr>"

text \<open>
  What a call of \<^verbatim>\<open>evaluate\<close> can touch: the instance \<open>self\<close>, the state of the remote
  side, and the record of the calls made on the client, in order.
\<close>

datatype 'r call = GetCompletion "message list" | ExtractJson 'r

record ('s, 'r) world =
  self :: "('s, 'r) Faithfulness"
  remote :: 's
  calls :: "'r call list"

definition evaluate ::
  "string \<Rightarrow> string \<Rightarrow> ('s, 'r) world \<Rightarrow> (error + (bool option \<times> pyval)) \<times> ('s, 'r) world" where
  "evaluate context response w =
     (case format_str USER_MESSAGE_TEMPLATE [context, response, examples (self w)] of
        Inl e \<Rightarrow> (Inl e, w)
      | Inr user_message \<Rightarrow>
          (let system_message = SYSTEM_MESSAGE;
               message = [\<lparr>role = ''system'', content = system_message\<rparr>,
                          \<lparr>role = ''user'', content = user_message\<rparr>];
               (r1, s1) = get_completion_from_messages (openAIcompletion (self w)) message (remote w);
               w1 = w\<lparr>remote := s1, calls := calls w @ [GetCompletion message]\<rparr>
           in case r1 of
                Inl e \<Rightarrow> (Inl e, w1)
              | Inr openai_response \<Rightarrow>
                  (let (r2, s2) = extract_json_from_response (openAIcompletion (self w1))
                                    openai_response (remote w1);
                       w2 = w1\<lparr>remote := s2, calls := calls w1 @ [ExtractJson openai_response]\<rparr>
                   in case r2 of
                        Inl e \<Rightarrow> (Inl e, w2)
                      | Inr openai_response_json \<Rightarrow> (compute openai_response_json, w2))))"

text \<open>
  A caller's run of several calls, one after the other on the same instance; the result
  of each call, error or pair, goes to the caller and has no part in the next call.
\<close>

fun evaluate_many :: "(string \<times> string) list \<Rightarrow> ('s, 'r) world \<Rightarrow> ('s, 'r) world" where
  "evaluate_many [] w = w"
| "evaluate_many ((context, response) # rest) w =
     evaluate_many rest (snd (evaluate context response w))"


section \<open>The rendered user message, written out\<close>

text \<open>
  The text of \<open>USER_MESSAGE_TEMPLATE\<close> around its three fields, cut where the proofs
  need it: up to the word before the first field, the line start before the second, and
  the lines before the third. \<open>user_message_text\<close> is what rendering the template gives
  (lemma \<open>format_user_message\<close> below); \<open>message_list\<close> is the two-element list that
  \<^verbatim>\<open>evaluate\<close> builds from it.
\<close>

definition tpl_to_context :: string where
  \<open>tpl_to_context =
      ''\<newline>'' @
      ''        Let's think step by step.\<newline>'' @
      ''        1. Consider the following:\<newline>'' @
      ''        context''\<close>

definition tpl_to_response :: string where
  \<open>tpl_to_response = ''        response''\<close>

definition tpl_to_examples :: string where
  \<open>tpl_to_examples =
      ''        2. Determine if the response can be inferred purely from the context provided.\<newline>'' @
      ''        3. Provide a brief explanation of what information the response contained that was not provided to it in the context, labeled as 'explanation', leading up to a verdict (Yes/No) labeled as 'verdict'.\<newline>'' @
      ''        4. Return a JSON object in the following format: "verdict": 'verdict', "explanation": 'explanation'.\<newline>'' @
      ''\<newline>'' @
      ''        Here's are some examples:\<newline>'' @
      ''        ''\<close>

definition tpl_end :: string where
  \<open>tpl_end = ''\<newline>'' @ ''    ''\<close>

definition user_message_text :: "string \<Rightarrow> string \<Rightarrow> string \<Rightarrow> string" where
  "user_message_text c r e =
     tpl_to_context @ '': '' @ c @ ''.\<newline>'' @ tpl_to_response @ '':'' @ r @ ''.\<newline>'' @
     tpl_to_examples @ e @ tpl_end"

definition message_list :: "string \<Rightarrow> string \<Rightarrow> string \<Rightarrow> message list" where
  "message_list c r e =
     [\<lparr>role = ''system'', content = SYSTEM_MESSAGE\<rparr>,
      \<lparr>role = ''user'', content = user_message_text c r e\<rparr>]"

section \<open>Stub clients\<close>

text \<open>
  Three completion clients for checking the theorems on concrete runs. The remote state
  is a counter of the requests received. \<open>stub_client j\<close> answers every request and
  extracts the value \<open>j\<close>; \<open>raising_client\<close> fails every request; \<open>unparsable_client\<close>
  answers, and fails to extract JSON from the answer.
\<close>

definition stub_client :: "pyval \<Rightarrow> (nat, string) OpenAICompletion" where
  "stub_client j =
     \<lparr>get_completion_from_messages = (\<lambda>messages n. (Inr ''raw completion'', Suc n)),
      extract_json_from_response = (\<lambda>raw n. (Inr j, n))\<rparr>"

definition raising_client :: "(nat, string) OpenAICompletion" where
  "raising_client =
     \<lparr>get_completion_from_messages = (\<lambda>messages n. (Inl (Raised ''APIConnectionError''), Suc n)),
      extract_json_from_response = (\<lambda>raw n. (Inr PNone, n))\<rparr>"

definition unparsable_client :: "(nat, string) OpenAICompletion" where
  "unparsable_client =
     \<lparr>get_completion_from_messages = (\<lambda>messages n. (Inr ''no json here'', Suc n)),
      extract_json_from_response = (\<lambda>raw n. (Inl (Raised ''JSONDecodeError''), n))\<rparr>"

definition stub_world :: "(nat, string) OpenAICompletion \<Rightarrow> (nat, string) world" where
  "stub_world client =
     \<lparr>self = init (\<lambda>model open_ai_key. client) ''gpt-4'' ''sk-test'' 139888225590544,
      remote = 0,
      calls = []\<rparr>"

section \<open>Lemmas on the verdict mappings\<close>

lemma lower_char_letter:
  assumes "97 \<le> (of_char l :: nat)" "(of_char l :: nat) \<le> 122"
  shows "lower_char c = l \<longleftrightarrow> c = l \<or> (of_char c :: nat) + 32 = of_char l"
proof -
  have b: "(of_char c :: nat) < 256" by simp
  show ?thesis
  proof (cases "65 \<le> (of_char c :: nat) \<and> (of_char c :: nat) \<le> 90")
    case True
    then have "lower_char c = char_of ((of_char c :: nat) + 32)"
      by (simp add: lower_char_def)
    moreover have "char_of ((of_char c :: nat) + 32) = l \<longleftrightarrow> (of_char c :: nat) + 32 = of_char l"
      using True by (simp add: char_of_eq_iff take_bit_nat_eq_self)
    moreover have "c \<noteq> l" using True assms by auto
    ultimately show ?thesis by simp
  next
    case False
    then have "lower_char c = c" by (auto simp: lower_char_def)
    moreover have "(of_char c :: nat) + 32 \<noteq> of_char l" using False assms by auto
    ultimately show ?thesis by simp
  qed
qed

lemma lower_char_pair:
  assumes "97 \<le> (of_char l :: nat)" "(of_char l :: nat) \<le> 122"
    and "(of_char u :: nat) + 32 = of_char l"
  shows "lower_char c = l \<longleftrightarrow> c = l \<or> c = u"
proof -
  have "(of_char c :: nat) + 32 = of_char l \<longleftrightarrow> c = u"
  proof
    assume "(of_char c :: nat) + 32 = of_char l"
    then have "(of_char c :: nat) = of_char u" using assms(3) by linarith
    then show "c = u" by (simp only: of_char_eq_iff)
  next
    assume "c = u"
    then show "(of_char c :: nat) + 32 = of_char l" using assms(3) by simp
  qed
  then show ?thesis
    using lower_char_letter [OF assms(1,2), of c] by simp
qed

text \<open>
  On the five letters of \<^verbatim>\<open>yes\<close> and \<^verbatim>\<open>no\<close>, lowering a character gives the letter exactly
  when the character is that letter in either case.
\<close>

lemma lower_char_y: "lower_char c = CHR ''y'' \<longleftrightarrow> same_letter c (CHR ''y'')"
  using lower_char_pair [of "CHR ''y''" "CHR ''Y''" c]
  by (simp add: same_letter_def ascii_uppercase_def ascii_lowercase_def)

lemma lower_char_e: "lower_char c = CHR ''e'' \<longleftrightarrow> same_letter c (CHR ''e'')"
  using lower_char_pair [of "CHR ''e''" "CHR ''E''" c]
  by (simp add: same_letter_def ascii_uppercase_def ascii_lowercase_def)

lemma lower_char_s: "lower_char c = CHR ''s'' \<longleftrightarrow> same_letter c (CHR ''s'')"
  using lower_char_pair [of "CHR ''s''" "CHR ''S''" c]
  by (simp add: same_letter_def ascii_uppercase_def ascii_lowercase_def)

lemma lower_char_n: "lower_char c = CHR ''n'' \<longleftrightarrow> same_letter c (CHR ''n'')"
  using lower_char_pair [of "CHR ''n''" "CHR ''N''" c]
  by (simp add: same_letter_def ascii_uppercase_def ascii_lowercase_def)

lemma lower_char_o: "lower_char c = CHR ''o'' \<longleftrightarrow> same_letter c (CHR ''o'')"
  using lower_char_pair [of "CHR ''o''" "CHR ''O''" c]
  by (simp add: same_letter_def ascii_uppercase_def ascii_lowercase_def)

lemma lower_eq_yes: "lower v = ''yes'' \<longleftrightarrow> eq_ignore_case v ''yes''"
  by (simp add: lower_def eq_ignore_case_def list_all2_Cons2 map_eq_Cons_conv
      lower_char_y lower_char_e lower_char_s)

lemma lower_eq_no: "lower v = ''no'' \<longleftrightarrow> eq_ignore_case v ''no''"
  by (simp add: lower_def eq_ignore_case_def list_all2_Cons2 map_eq_Cons_conv
      lower_char_n lower_char_o)

lemma not_yes_and_no: "\<not> (eq_ignore_case v ''yes'' \<and> eq_ignore_case v ''no'')"
proof
  assume a: "eq_ignore_case v ''yes'' \<and> eq_ignore_case v ''no''"
  then have "length v = length ''yes''" "length v = length ''no''"
    by (auto simp: eq_ignore_case_def dest: list_all2_lengthD)
  then show False by simp
qed

lemma verdict_to_bool_str:
  "verdict_to_bool (PStr v) =
     Inr (if eq_ignore_case v ''no'' then Some True
          else if eq_ignore_case v ''yes'' then Some False else None)"
  by (simp add: verdict_to_bool_def lower_eq_yes lower_eq_no)

lemma verdict_to_int_str:
  "verdict_to_int (PStr v) =
     Inr (if eq_ignore_case v ''no'' then Some 1
          else if eq_ignore_case v ''yes'' then Some 0 else None)"
  by (simp add: verdict_to_int_def lower_eq_yes lower_eq_no)

lemma eq_ignore_case_eval:
  "eq_ignore_case [] [] = True"
  "eq_ignore_case (c # cs) [] = False"
  "eq_ignore_case [] (d # ds) = False"
  "eq_ignore_case (c # cs) (d # ds) = (same_letter c d \<and> eq_ignore_case cs ds)"
  by (simp_all add: eq_ignore_case_def)

section \<open>Lemmas on rendering and on \<^verbatim>\<open>evaluate\<close>\<close>

lemma prepend_prepend: "prepend p (prepend q r) = prepend (p @ q) r"
  by (cases r) (simp_all add: prepend_def)

lemma prepend_Inr: "prepend p (Inr s) = Inr (p @ s)"
  by (simp add: prepend_def)

lemma format_str_char:
  "c \<noteq> CHR ''{'' \<Longrightarrow> c \<noteq> CHR ''}'' \<Longrightarrow> xs \<noteq> [] \<Longrightarrow>
   format_str (c # xs) args = prepend [c] (format_str xs args)"
  by (cases xs) simp_all

lemma format_str_field:
  "format_str (CHR ''{'' # CHR ''}'' # rest) (a # args) = prepend a (format_str rest args)"
  by simp

lemma format_str_plain:
  "CHR ''{'' \<notin> set p \<Longrightarrow> CHR ''}'' \<notin> set p \<Longrightarrow>
   format_str (p @ CHR ''{'' # CHR ''}'' # rest) (a # args) = prepend (p @ a) (format_str rest args)"
proof (induction p)
  case Nil
  show ?case by (simp only: append_Nil format_str_field)
next
  case (Cons c p)
  then have c: "c \<noteq> CHR ''{''" "c \<noteq> CHR ''}''" by auto
  have ih: "format_str (p @ CHR ''{'' # CHR ''}'' # rest) (a # args)
      = prepend (p @ a) (format_str rest args)"
    using Cons.prems by (intro Cons.IH) auto
  have "format_str ((c # p) @ CHR ''{'' # CHR ''}'' # rest) (a # args)
      = prepend [c] (format_str (p @ CHR ''{'' # CHR ''}'' # rest) (a # args))"
    using format_str_char [OF c, of "p @ CHR ''{'' # CHR ''}'' # rest" "a # args"] by simp
  then show ?case
    by (simp only: ih prepend_prepend append_Cons append_Nil)
qed

lemma format_str_tail:
  "CHR ''{'' \<notin> set p \<Longrightarrow> CHR ''}'' \<notin> set p \<Longrightarrow> format_str p args = Inr p"
proof (induction p)
  case Nil
  show ?case by simp
next
  case (Cons c q)
  then have c: "c \<noteq> CHR ''{''" "c \<noteq> CHR ''}''" by auto
  have ih: "format_str q args = Inr q"
    using Cons.prems by (intro Cons.IH) auto
  show ?case
  proof (cases "q = []")
    case True
    then show ?thesis using c by simp
  next
    case False
    then have "format_str (c # q) args = prepend [c] (format_str q args)"
      using format_str_char [OF c, of q args] by simp
    then show ?thesis by (simp add: ih prepend_Inr)
  qed
qed

lemma template_split:
  "USER_MESSAGE_TEMPLATE =
     (tpl_to_context @ '': '') @ ''{}'' @ (''.\<newline>'' @ tpl_to_response @ '':'') @ ''{}'' @
     (''.\<newline>'' @ tpl_to_examples) @ ''{}'' @ tpl_end"
  by (simp add: USER_MESSAGE_TEMPLATE_def tpl_to_context_def tpl_to_response_def
      tpl_to_examples_def tpl_end_def)

lemma tpl_no_braces:
  "CHR ''{'' \<notin> set (tpl_to_context @ '': '')" "CHR ''}'' \<notin> set (tpl_to_context @ '': '')"
  "CHR ''{'' \<notin> set (''.\<newline>'' @ tpl_to_response @ '':'')"
  "CHR ''}'' \<notin> set (''.\<newline>'' @ tpl_to_response @ '':'')"
  "CHR ''{'' \<notin> set (''.\<newline>'' @ tpl_to_examples)"
  "CHR ''}'' \<notin> set (''.\<newline>'' @ tpl_to_examples)"
  "CHR ''{'' \<notin> set tpl_end" "CHR ''}'' \<notin> set tpl_end"
  by (simp_all add: tpl_to_context_def tpl_to_response_def tpl_to_examples_def tpl_end_def)

lemma format_user_message:
  "format_str USER_MESSAGE_TEMPLATE [c, r, e] = Inr (user_message_text c r e)"
proof -
  let ?A = "tpl_to_context @ '': ''" and ?B = "''.\<newline>'' @ tpl_to_response @ '':''"
    and ?C = "''.\<newline>'' @ tpl_to_examples"
  have 3: "format_str tpl_end [] = Inr tpl_end"
    by (rule format_str_tail) (rule tpl_no_braces)+
  have 2: "format_str (?C @ ''{}'' @ tpl_end) [e] = Inr (?C @ e @ tpl_end)"
    using format_str_plain [OF tpl_no_braces(5,6), of tpl_end e "[]"] 3
    by (simp add: prepend_Inr)
  have 1: "format_str (?B @ ''{}'' @ ?C @ ''{}'' @ tpl_end) [r, e] = Inr (?B @ r @ ?C @ e @ tpl_end)"
    using format_str_plain [OF tpl_no_braces(3,4), of "?C @ ''{}'' @ tpl_end" r "[e]"] 2
    by (simp add: prepend_Inr)
  have 0: "format_str (?A @ ''{}'' @ ?B @ ''{}'' @ ?C @ ''{}'' @ tpl_end) [c, r, e]
      = Inr (?A @ c @ ?B @ r @ ?C @ e @ tpl_end)"
    using format_str_plain [OF tpl_no_braces(1,2), of "?B @ ''{}'' @ ?C @ ''{}'' @ tpl_end" c "[r, e]"] 1
    by (simp add: prepend_Inr)
  show ?thesis
    unfolding template_split user_message_text_def using 0 by simp
qed

lemma evaluate_get_raises:
  assumes "get_completion_from_messages (openAIcompletion (self w))
             (message_list c r (examples (self w))) (remote w) = (Inl e, s)"
  shows "evaluate c r w =
     (Inl e, w\<lparr>remote := s,
               calls := calls w @ [GetCompletion (message_list c r (examples (self w)))]\<rparr>)"
  using assms by (simp add: evaluate_def format_user_message message_list_def)

lemma evaluate_extract_raises:
  assumes "get_completion_from_messages (openAIcompletion (self w))
             (message_list c r (examples (self w))) (remote w) = (Inr raw, s)"
    and "extract_json_from_response (openAIcompletion (self w)) raw s = (Inl e, s')"
  shows "evaluate c r w =
     (Inl e, w\<lparr>remote := s',
               calls := calls w @ [GetCompletion (message_list c r (examples (self w))),
                                   ExtractJson raw]\<rparr>)"
  using assms by (simp add: evaluate_def format_user_message message_list_def)

lemma evaluate_extracted:
  assumes "get_completion_from_messages (openAIcompletion (self w))
             (message_list c r (examples (self w))) (remote w) = (Inr raw, s)"
    and "extract_json_from_response (openAIcompletion (self w)) raw s = (Inr j, s')"
  shows "evaluate c r w =
     (compute j, w\<lparr>remote := s',
               calls := calls w @ [GetCompletion (message_list c r (examples (self w))),
                                   ExtractJson raw]\<rparr>)"
  using assms by (simp add: evaluate_def format_user_message message_list_def)

lemma evaluate_cases:
  obtains (get_raises) e s where
      "get_completion_from_messages (openAIcompletion (self w))
             (message_list c r (examples (self w))) (remote w) = (Inl e, s)"
  | (extract_raises) raw s e s' where
      "get_completion_from_messages (openAIcompletion (self w))
             (message_list c r (examples (self w))) (remote w) = (Inr raw, s)"
      "extract_json_from_response (openAIcompletion (self w)) raw s = (Inl e, s')"
  | (extracted) raw s j s' where
      "get_completion_from_messages (openAIcompletion (self w))
             (message_list c r (examples (self w))) (remote w) = (Inr raw, s)"
      "extract_json_from_response (openAIcompletion (self w)) raw s = (Inr j, s')"
proof -
  obtain r1 s where g: "get_completion_from_messages (openAIcompletion (self w))
             (message_list c r (examples (self w))) (remote w) = (r1, s)"
    by (cases "get_completion_from_messages (openAIcompletion (self w))
             (message_list c r (examples (self w))) (remote w)")
  show thesis
  proof (cases r1)
    case (Inl e)
    then show ?thesis using g get_raises by simp
  next
    case (Inr raw)
    obtain r2 s' where x: "extract_json_from_response (openAIcompletion (self w)) raw s = (r2, s')"
      by (cases "extract_json_from_response (openAIcompletion (self w)) raw s")
    show ?thesis
    proof (cases r2)
      case (Inl e)
      then show ?thesis using g x Inr extract_raises by simp
    next
      case (Inr j)
      then show ?thesis using g x \<open>r1 = Inr raw\<close> extracted by simp
    qed
  qed
qed



lemma self_after_evaluate: "self (snd (evaluate c r w)) = self w"
  by (cases rule: evaluate_cases [of w c r])
     (simp_all add: evaluate_get_raises evaluate_extract_raises evaluate_extracted)

lemma self_after_evaluate_many: "self (evaluate_many qs w) = self w"
proof (induction qs arbitrary: w)
  case Nil
  show ?case by simp
next
  case (Cons q qs)
  obtain c r where q: "q = (c, r)" by (cases q)
  show ?case by (simp add: q Cons.IH self_after_evaluate)
qed


lemma compute_dict:
  "compute (PDict m) =
     (case m ''verdict'' of
        None \<Rightarrow> Inl (KeyError ''verdict'')
      | Some v \<Rightarrow>
          (case verdict_to_bool v of
             Inl e \<Rightarrow> Inl e
           | Inr b \<Rightarrow>
               (case m ''explanation'' of
                  None \<Rightarrow> Inl (KeyError ''explanation'')
                | Some x \<Rightarrow> Inr (b, x))))"
  by (simp add: compute_def split: option.splits sum.splits)

section \<open>Lemmas on the examples text and on substrings of the user message\<close>

lemma message_contains_context: "sublist c (user_message_text c r e)"
  using sublist_appendI [of c "tpl_to_context @ '': ''"
      "''.\<newline>'' @ tpl_to_response @ '':'' @ r @ ''.\<newline>'' @ tpl_to_examples @ e @ tpl_end"]
  by (simp add: user_message_text_def)

lemma message_contains_response: "sublist r (user_message_text c r e)"
  using sublist_appendI [of r "tpl_to_context @ '': '' @ c @ ''.\<newline>'' @ tpl_to_response @ '':''"
      "''.\<newline>'' @ tpl_to_examples @ e @ tpl_end"]
  by (simp add: user_message_text_def)


lemma message_contains_context_stop: "sublist (c @ ''.'') (user_message_text c r e)"
  using sublist_appendI [of "c @ ''.''" "tpl_to_context @ '': ''"
      "''\<newline>'' @ tpl_to_response @ '':'' @ r @ ''.\<newline>'' @ tpl_to_examples @ e @ tpl_end"]
  by (simp add: user_message_text_def)

lemma hex_example: "hex 139888225590544 = ''7f3a43fe9d10''"
  by (simp add: hex.simps hex_digit_def hex_digits_def)

lemma hex_digit_range: "d < 16 \<Longrightarrow> hex_digit d \<in> set hex_digits"
  unfolding hex_digit_def by (rule nth_mem) (simp add: hex_digits_def)

lemma hex_chars: "set (hex n) \<subseteq> set hex_digits"
proof (induction n rule: hex.induct)
  case (1 n)
  show ?case
  proof (cases "n < 16")
    case True
    then have "hex n = [hex_digit n]" by (subst hex.simps) simp
    then show ?thesis using hex_digit_range [OF True] by simp
  next
    case False
    then have "hex n = hex (n div 16) @ [hex_digit (n mod 16)]" by (subst hex.simps) simp
    moreover have "hex_digit (n mod 16) \<in> set hex_digits"
      by (rule hex_digit_range) simp
    moreover have "set (hex (n div 16)) \<subseteq> set hex_digits"
      using False by (rule 1)
    ultimately show ?thesis by simp
  qed
qed

lemma examples_text:
  "get_few_shot_examples a =
     ''<redeval.evaluators.faithfulness.FewShotExampleFaithfulness object at 0x'' @ hex a @ ''>''"
  by (simp add: get_few_shot_examples_def str_FewShotExampleFaithfulness_def object_repr_def)

lemma not_sublist_pivot: "p \<in> set w \<Longrightarrow> p \<notin> set s \<Longrightarrow> \<not> sublist w s"
  using set_mono_sublist by fastforce

lemma sublist_sep:
  assumes "x \<notin> set w" and "sublist w (xs @ x # ys)"
  shows "sublist w xs \<or> sublist w ys"
proof -
  from assms(2) consider "sublist w xs" | "sublist w (x # ys)"
    | w1 w2 where "w = w1 @ w2" "suffix w1 xs" "prefix w2 (x # ys)"
    unfolding sublist_append by blast
  then show ?thesis
  proof cases
    case 1
    then show ?thesis by simp
  next
    case 2
    then have "prefix w (x # ys) \<or> sublist w ys" by (simp add: sublist_Cons_right)
    moreover have "w = []" if "prefix w (x # ys)"
      using that assms(1) by (cases w) auto
    ultimately show ?thesis by auto
  next
    case 3
    have "w2 = []" using 3(1,3) assms(1) by (cases w2) auto
    then show ?thesis using 3 by auto
  qed
qed

lemma sublist_skip_hd:
  assumes "w \<noteq> []" and "hd w \<noteq> x" and "sublist w (x # ys)"
  shows "sublist w ys"
proof -
  have "\<not> prefix w (x # ys)" using assms(1,2) by (cases w) auto
  then show ?thesis using assms(3) by (simp add: sublist_Cons_right)
qed

lemma sublist_drop_last:
  assumes "w \<noteq> []" and "last w \<noteq> x" and "sublist w (xs @ [x])"
  shows "sublist w xs"
proof -
  have "sublist (rev w) (rev (xs @ [x]))"
    using assms(3) by (simp only: sublist_rev)
  then have a: "sublist (rev w) (x # rev xs)" by simp
  have b: "rev w \<noteq> []" and c: "hd (rev w) \<noteq> x"
    using assms(1,2) by (simp_all add: hd_rev)
  have "sublist (rev w) (rev xs)"
    by (rule sublist_skip_hd [OF b c a])
  then show ?thesis by (simp only: sublist_rev)
qed

lemma user_message_occurrence:
  assumes w: "w \<noteq> []" "hd w \<noteq> CHR '' ''" "CHR '':'' \<notin> set w" "CHR ''\<newline>'' \<notin> set w"
    and t: "\<not> sublist w tpl_to_context" "\<not> sublist w tpl_to_response"
      "\<not> sublist w (tpl_to_examples @ e @ tpl_end)"
    and s: "sublist w (user_message_text c r e)"
  shows "sublist w (c @ ''.'') \<or> sublist w (r @ ''.'')"
proof -
  let ?R4 = "tpl_to_examples @ e @ tpl_end"
  let ?R3 = "(r @ ''.'') @ CHR ''\<newline>'' # ?R4"
  let ?R2 = "tpl_to_response @ CHR '':'' # ?R3"
  let ?R1 = "(CHR '' '' # c @ ''.'') @ CHR ''\<newline>'' # ?R2"
  have eq: "user_message_text c r e = tpl_to_context @ CHR '':'' # ?R1"
    by (simp add: user_message_text_def)
  have "sublist w (tpl_to_context @ CHR '':'' # ?R1)"
    using s unfolding eq .
  then have "sublist w tpl_to_context \<or> sublist w ?R1"
    by (rule sublist_sep [OF w(3)])
  then have "sublist w ?R1" using t(1) by blast
  then have "sublist w (CHR '' '' # c @ ''.'') \<or> sublist w ?R2"
    by (rule sublist_sep [OF w(4)])
  then show ?thesis
  proof
    assume "sublist w (CHR '' '' # c @ ''.'')"
    then have "sublist w (c @ ''.'')" by (rule sublist_skip_hd [OF w(1,2)])
    then show ?thesis ..
  next
    assume "sublist w ?R2"
    then have "sublist w tpl_to_response \<or> sublist w ?R3"
      by (rule sublist_sep [OF w(3)])
    then have "sublist w ?R3" using t(2) by blast
    then have "sublist w (r @ ''.'') \<or> sublist w ?R4"
      by (rule sublist_sep [OF w(4)])
    then show ?thesis using t(3) by blast
  qed
qed

lemma sublist_in_middle: "sublist w t \<Longrightarrow> sublist w (a @ t @ b)"
  using sublist_order.order_trans [of w t "a @ t @ b"] by simp

lemma not_in_examples_text:
  assumes "p \<notin> set hex_digits"
    and "p \<notin> set ''<redeval.evaluators.faithfulness.FewShotExampleFaithfulness object at 0x>''"
  shows "p \<notin> set (get_few_shot_examples a)"
proof -
  have "p \<notin> set (hex a)" using assms(1) hex_chars [of a] by blast
  then show ?thesis using assms(2) by (simp add: examples_text)
qed

lemma field_facts:
  "example_context example1 \<noteq> []" "hd (example_context example1) \<noteq> CHR '' ''"
  "last (example_context example1) \<noteq> CHR ''.''"
  "CHR '':'' \<notin> set (example_context example1)"
  "CHR ''\<newline>'' \<notin> set (example_context example1)"
  "CHR ''M'' \<in> set (example_context example1)"
  "example_response example1 \<noteq> []" "hd (example_response example1) \<noteq> CHR '' ''"
  "last (example_response example1) \<noteq> CHR ''.''"
  "CHR '':'' \<notin> set (example_response example1)"
  "CHR ''\<newline>'' \<notin> set (example_response example1)"
  "CHR ''x'' \<notin> set (example_response example1)"
  "CHR ''5'' \<in> set (example_response example1)"
  "CHR '','' \<in> set (example_response example1)"
  "eval_reason example1 \<noteq> []" "hd (eval_reason example1) \<noteq> CHR '' ''"
  "CHR '':'' \<notin> set (eval_reason example1)"
  "CHR ''\<newline>'' \<notin> set (eval_reason example1)"
  "CHR ''T'' \<in> set (eval_reason example1)"
  "CHR ''N'' \<in> set (eval_result example1)"
  by (simp_all add: example1_def)

lemma pivot_facts:
  "CHR ''M'' \<notin> set tpl_to_context" "CHR ''M'' \<notin> set tpl_to_response"
  "CHR ''M'' \<notin> set tpl_to_examples" "CHR ''M'' \<notin> set tpl_end"
  "CHR ''T'' \<notin> set tpl_to_context" "CHR ''T'' \<notin> set tpl_to_response"
  "CHR ''T'' \<notin> set tpl_to_examples" "CHR ''T'' \<notin> set tpl_end"
  "CHR ''5'' \<notin> set tpl_to_context" "CHR ''5'' \<notin> set tpl_to_response"
  "CHR ''5'' \<notin> set tpl_to_examples" "CHR '','' \<notin> set tpl_end"
  by (simp_all add: tpl_to_context_def tpl_to_response_def tpl_to_examples_def tpl_end_def)

lemma pivot_not_in_examples:
  "CHR ''M'' \<notin> set (get_few_shot_examples a)" "CHR ''T'' \<notin> set (get_few_shot_examples a)"
  "CHR '','' \<notin> set (get_few_shot_examples a)" "CHR ''N'' \<notin> set (get_few_shot_examples a)"
  by (rule not_in_examples_text; simp add: hex_digits_def)+

lemma fields_not_in_examples:
  "\<not> sublist (example_context example1) (get_few_shot_examples a)"
  "\<not> sublist (example_response example1) (get_few_shot_examples a)"
  "\<not> sublist (eval_result example1) (get_few_shot_examples a)"
  "\<not> sublist (eval_reason example1) (get_few_shot_examples a)"
  using not_sublist_pivot [OF field_facts(6) pivot_not_in_examples(1)]
    not_sublist_pivot [OF field_facts(14) pivot_not_in_examples(3)]
    not_sublist_pivot [OF field_facts(20) pivot_not_in_examples(4)]
    not_sublist_pivot [OF field_facts(19) pivot_not_in_examples(2)]
  by blast+

lemma response_not_in_examples_block:
  "\<not> sublist (example_response example1) (tpl_to_examples @ get_few_shot_examples a @ tpl_end)"
proof
  let ?w = "example_response example1"
  let ?P0 = "''<redeval.evaluators.faithfulness.FewShotExampleFaithfulness object at 0''"
  assume "sublist ?w (tpl_to_examples @ get_few_shot_examples a @ tpl_end)"
  then have "sublist ?w ((tpl_to_examples @ ?P0) @ CHR ''x'' # (hex a @ ''>'' @ tpl_end))"
    by (simp add: examples_text)
  then have "sublist ?w (tpl_to_examples @ ?P0) \<or> sublist ?w (hex a @ ''>'' @ tpl_end)"
    by (rule sublist_sep [OF field_facts(12)])
  moreover have "CHR ''5'' \<notin> set (tpl_to_examples @ ?P0)"
    using pivot_facts(11) by simp
  then have "\<not> sublist ?w (tpl_to_examples @ ?P0)"
    by (rule not_sublist_pivot [OF field_facts(13)])
  moreover have "CHR '','' \<notin> set (hex a)"
    using hex_chars [of a] by (auto simp: hex_digits_def)
  then have "CHR '','' \<notin> set (hex a @ ''>'' @ tpl_end)"
    using pivot_facts(12) by simp
  then have "\<not> sublist ?w (hex a @ ''>'' @ tpl_end)"
    by (rule not_sublist_pivot [OF field_facts(14)])
  ultimately show False by blast
qed

lemma eval_result_in_message: "sublist (eval_result example1) (user_message_text c r e)"
proof -
  have "sublist ''No'' tpl_to_examples"
    by code_simp
  then have "sublist (eval_result example1) tpl_to_examples"
    by (simp add: example1_def)
  then show ?thesis
    unfolding user_message_text_def
    using sublist_in_middle [of "eval_result example1" tpl_to_examples
        "tpl_to_context @ '': '' @ c @ ''.\<newline>'' @ tpl_to_response @ '':'' @ r @ ''.\<newline>''"
        "e @ tpl_end"]
    by simp
qed

section \<open>The claims\<close>

lemmas ci_eval = eq_ignore_case_eval same_letter_def ascii_uppercase_def ascii_lowercase_def

text \<open>
  Claim C1. For every string that equals \<^verbatim>\<open>yes\<close> case-insensitively, \<^verbatim>\<open>verdict_to_bool\<close>
  returns false and \<^verbatim>\<open>verdict_to_int\<close> returns 0; for every string that equals \<^verbatim>\<open>no\<close>
  case-insensitively, \<^verbatim>\<open>verdict_to_bool\<close> returns true and \<^verbatim>\<open>verdict_to_int\<close> returns 1.
\<close>

theorem verdict_yes_no_any_case:
  "(eq_ignore_case v ''yes'' \<longrightarrow>
      verdict_to_bool (PStr v) = Inr (Some False) \<and> verdict_to_int (PStr v) = Inr (Some 0)) \<and>
   (eq_ignore_case v ''no'' \<longrightarrow>
      verdict_to_bool (PStr v) = Inr (Some True) \<and> verdict_to_int (PStr v) = Inr (Some 1))"
  using not_yes_and_no [of v] by (auto simp: verdict_to_bool_str verdict_to_int_str)

text \<open>The three spellings of each verdict that the specification lists.\<close>

theorem verdict_yes_no_any_case_witness:
  "eq_ignore_case ''YES'' ''yes'' \<and> verdict_to_bool (PStr ''YES'') = Inr (Some False) \<and>
   verdict_to_int (PStr ''YES'') = Inr (Some 0) \<and>
   eq_ignore_case ''Yes'' ''yes'' \<and> verdict_to_bool (PStr ''Yes'') = Inr (Some False) \<and>
   verdict_to_int (PStr ''Yes'') = Inr (Some 0) \<and>
   eq_ignore_case ''yes'' ''yes'' \<and> verdict_to_bool (PStr ''yes'') = Inr (Some False) \<and>
   verdict_to_int (PStr ''yes'') = Inr (Some 0) \<and>
   eq_ignore_case ''NO'' ''no'' \<and> verdict_to_bool (PStr ''NO'') = Inr (Some True) \<and>
   verdict_to_int (PStr ''NO'') = Inr (Some 1) \<and>
   eq_ignore_case ''No'' ''no'' \<and> verdict_to_bool (PStr ''No'') = Inr (Some True) \<and>
   verdict_to_int (PStr ''No'') = Inr (Some 1) \<and>
   eq_ignore_case ''no'' ''no'' \<and> verdict_to_bool (PStr ''no'') = Inr (Some True) \<and>
   verdict_to_int (PStr ''no'') = Inr (Some 1)"
proof -
  have y: "eq_ignore_case ''YES'' ''yes''" "eq_ignore_case ''Yes'' ''yes''"
    "eq_ignore_case ''yes'' ''yes''"
    by (simp_all add: ci_eval)
  have n: "eq_ignore_case ''NO'' ''no''" "eq_ignore_case ''No'' ''no''"
    "eq_ignore_case ''no'' ''no''"
    by (simp_all add: ci_eval)
  show ?thesis
    using y n verdict_yes_no_any_case [of "''YES''"] verdict_yes_no_any_case [of "''Yes''"]
      verdict_yes_no_any_case [of "''yes''"] verdict_yes_no_any_case [of "''NO''"]
      verdict_yes_no_any_case [of "''No''"] verdict_yes_no_any_case [of "''no''"]
    by blast
qed

text \<open>
  Claim C2. For every string that equals neither \<^verbatim>\<open>yes\<close> nor \<^verbatim>\<open>no\<close> case-insensitively,
  both mappings return \<^verbatim>\<open>None\<close>, not a truth value and not a number; and \<^verbatim>\<open>compute\<close>
  hands that \<^verbatim>\<open>None\<close> on as it is, it does not turn it into false.
\<close>

theorem verdict_other_is_None:
  assumes "\<not> eq_ignore_case v ''yes''" and "\<not> eq_ignore_case v ''no''"
  shows "verdict_to_bool (PStr v) = Inr None \<and> verdict_to_int (PStr v) = Inr None \<and>
     (\<forall>m x. m ''verdict'' = Some (PStr v) \<and> m ''explanation'' = Some x \<longrightarrow>
        compute (PDict m) = Inr (None, x))"
  using assms by (simp add: verdict_to_bool_str verdict_to_int_str compute_dict)

text \<open>The three examples of the specification, and a mapping with such a verdict.\<close>

theorem verdict_other_is_None_witness:
  "\<not> eq_ignore_case ''maybe'' ''yes'' \<and> \<not> eq_ignore_case ''maybe'' ''no'' \<and>
   verdict_to_bool (PStr ''maybe'') = Inr None \<and> verdict_to_int (PStr ''maybe'') = Inr None \<and>
   \<not> eq_ignore_case '''' ''yes'' \<and> \<not> eq_ignore_case '''' ''no'' \<and>
   verdict_to_bool (PStr '''') = Inr None \<and> verdict_to_int (PStr '''') = Inr None \<and>
   \<not> eq_ignore_case ''unclear'' ''yes'' \<and> \<not> eq_ignore_case ''unclear'' ''no'' \<and>
   verdict_to_bool (PStr ''unclear'') = Inr None \<and> verdict_to_int (PStr ''unclear'') = Inr None \<and>
   [''verdict'' \<mapsto> PStr ''maybe'', ''explanation'' \<mapsto> PStr ''Hard to say.''] ''verdict''
     = Some (PStr ''maybe'') \<and>
   [''verdict'' \<mapsto> PStr ''maybe'', ''explanation'' \<mapsto> PStr ''Hard to say.''] ''explanation''
     = Some (PStr ''Hard to say.'') \<and>
   compute (PDict [''verdict'' \<mapsto> PStr ''maybe'', ''explanation'' \<mapsto> PStr ''Hard to say.''])
     = Inr (None, PStr ''Hard to say.'')"
proof -
  have a: "\<not> eq_ignore_case ''maybe'' ''yes''" "\<not> eq_ignore_case ''maybe'' ''no''"
    and b: "\<not> eq_ignore_case '''' ''yes''" "\<not> eq_ignore_case '''' ''no''"
    and c: "\<not> eq_ignore_case ''unclear'' ''yes''" "\<not> eq_ignore_case ''unclear'' ''no''"
    by (simp_all add: ci_eval)
  have m: "[''verdict'' \<mapsto> PStr ''maybe'', ''explanation'' \<mapsto> PStr ''Hard to say.''] ''verdict''
     = Some (PStr ''maybe'')"
    "[''verdict'' \<mapsto> PStr ''maybe'', ''explanation'' \<mapsto> PStr ''Hard to say.''] ''explanation''
     = Some (PStr ''Hard to say.'')"
    by simp_all
  show ?thesis
    using a b c m verdict_other_is_None [OF a] verdict_other_is_None [OF b]
      verdict_other_is_None [OF c]
    by blast
qed

text \<open>The stub clients and the world built on them, evaluated.\<close>

lemma stub_world_simps:
  "openAIcompletion (self (stub_world cl)) = cl"
  "examples (self (stub_world cl)) = get_few_shot_examples 139888225590544"
  "remote (stub_world cl) = 0"
  "calls (stub_world cl) = []"
  by (simp_all add: stub_world_def init_def)

lemma stub_client_simps:
  "get_completion_from_messages (stub_client j) ms n = (Inr ''raw completion'', Suc n)"
  "extract_json_from_response (stub_client j) raw n = (Inr j, n)"
  by (simp_all add: stub_client_def)

lemma raising_client_simps:
  "get_completion_from_messages raising_client ms n = (Inl (Raised ''APIConnectionError''), Suc n)"
  by (simp add: raising_client_def)

lemma unparsable_client_simps:
  "get_completion_from_messages unparsable_client ms n = (Inr ''no json here'', Suc n)"
  "extract_json_from_response unparsable_client raw n = (Inl (Raised ''JSONDecodeError''), n)"
  by (simp_all add: unparsable_client_def)

text \<open>
  Claim C3. For every context and response, when the completion client answers and JSON
  extraction yields the mapping with verdict \<^verbatim>\<open>No\<close> and explanation
  \<^verbatim>\<open>The context does not substantiate the response.\<close>, \<^verbatim>\<open>evaluate\<close> returns true with that
  explanation; when it yields verdict \<^verbatim>\<open>Yes\<close> and explanation \<^verbatim>\<open>Fully supported.\<close>, it
  returns false with that explanation.
\<close>

theorem evaluate_stubbed_verdicts:
  assumes "get_completion_from_messages (openAIcompletion (self w))
             (message_list c r (examples (self w))) (remote w) = (Inr raw, s)"
  shows "(extract_json_from_response (openAIcompletion (self w)) raw s =
            (Inr (PDict [''verdict'' \<mapsto> PStr ''No'',
                         ''explanation'' \<mapsto> PStr ''The context does not substantiate the response.'']), s')
          \<longrightarrow> fst (evaluate c r w) =
                Inr (Some True, PStr ''The context does not substantiate the response.'')) \<and>
         (extract_json_from_response (openAIcompletion (self w)) raw s =
            (Inr (PDict [''verdict'' \<mapsto> PStr ''Yes'',
                         ''explanation'' \<mapsto> PStr ''Fully supported.'']), s')
          \<longrightarrow> fst (evaluate c r w) = Inr (Some False, PStr ''Fully supported.''))"
proof -
  have no: "eq_ignore_case ''No'' ''no''" and yes: "eq_ignore_case ''Yes'' ''yes''"
    and ny: "\<not> eq_ignore_case ''Yes'' ''no''"
    by (simp_all add: ci_eval)
  show ?thesis
    using evaluate_extracted [OF assms] no yes ny
    by (auto simp: compute_dict verdict_to_bool_str)
qed

text \<open>The scenario of the specification, run on the stub client.\<close>

theorem evaluate_stubbed_verdicts_witness:
  "get_completion_from_messages
     (openAIcompletion (self (stub_world (stub_client (PDict [''verdict'' \<mapsto> PStr ''No'',
        ''explanation'' \<mapsto> PStr ''The context does not substantiate the response.''])))))
     (message_list ''Y Combinator is a startup accelerator launched in March 2005.'' ''125,000''
        (examples (self (stub_world (stub_client (PDict [''verdict'' \<mapsto> PStr ''No'',
        ''explanation'' \<mapsto> PStr ''The context does not substantiate the response.'']))))))
     (remote (stub_world (stub_client (PDict [''verdict'' \<mapsto> PStr ''No'',
        ''explanation'' \<mapsto> PStr ''The context does not substantiate the response.'']))))
     = (Inr ''raw completion'', 1) \<and>
   fst (evaluate ''Y Combinator is a startup accelerator launched in March 2005.'' ''125,000''
         (stub_world (stub_client (PDict [''verdict'' \<mapsto> PStr ''No'',
            ''explanation'' \<mapsto> PStr ''The context does not substantiate the response.'']))))
     = Inr (Some True, PStr ''The context does not substantiate the response.'') \<and>
   fst (evaluate ''Y Combinator is a startup accelerator launched in March 2005.'' ''125,000''
         (stub_world (stub_client (PDict [''verdict'' \<mapsto> PStr ''Yes'',
            ''explanation'' \<mapsto> PStr ''Fully supported.'']))))
     = Inr (Some False, PStr ''Fully supported.'')"
proof -
  let ?no = "PDict [''verdict'' \<mapsto> PStr ''No'',
        ''explanation'' \<mapsto> PStr ''The context does not substantiate the response.'']"
  let ?yes = "PDict [''verdict'' \<mapsto> PStr ''Yes'', ''explanation'' \<mapsto> PStr ''Fully supported.'']"
  let ?c = "''Y Combinator is a startup accelerator launched in March 2005.''"
  let ?r = "''125,000''"
  have g: "get_completion_from_messages (openAIcompletion (self (stub_world (stub_client j))))
             (message_list ?c ?r (examples (self (stub_world (stub_client j)))))
             (remote (stub_world (stub_client j))) = (Inr ''raw completion'', 1)" for j
    by (simp only: stub_world_simps stub_client_simps One_nat_def)
  have x: "extract_json_from_response (openAIcompletion (self (stub_world (stub_client j))))
             ''raw completion'' 1 = (Inr j, 1)" for j
    by (simp only: stub_world_simps stub_client_simps)
  show ?thesis
    using g [of ?no] x [of ?no] x [of ?yes]
      evaluate_stubbed_verdicts [OF g [of ?no], of 1]
      evaluate_stubbed_verdicts [OF g [of ?yes], of 1]
    by blast
qed

text \<open>
  Claim C4. For every mapping with string values under \<^verbatim>\<open>verdict\<close> and \<^verbatim>\<open>explanation\<close>,
  \<^verbatim>\<open>compute\<close> returns the pair of \<^verbatim>\<open>verdict_to_bool\<close> of the verdict and the explanation;
  with verdict \<^verbatim>\<open>No\<close> that is true and the explanation, with verdict \<^verbatim>\<open>Yes\<close> false and
  the explanation.
\<close>

theorem compute_pairs_verdict_with_explanation:
  "(m ''verdict'' = Some (PStr v) \<and> m ''explanation'' = Some (PStr x) \<longrightarrow>
      (\<exists>b. verdict_to_bool (PStr v) = Inr b \<and> compute (PDict m) = Inr (b, PStr x))) \<and>
   compute (PDict [''verdict'' \<mapsto> PStr ''No'', ''explanation'' \<mapsto> PStr x]) = Inr (Some True, PStr x) \<and>
   compute (PDict [''verdict'' \<mapsto> PStr ''Yes'', ''explanation'' \<mapsto> PStr y]) = Inr (Some False, PStr y)"
proof -
  have no: "eq_ignore_case ''No'' ''no''" and yes: "eq_ignore_case ''Yes'' ''yes''"
    and ny: "\<not> eq_ignore_case ''Yes'' ''no''"
    by (simp_all add: ci_eval)
  show ?thesis
    using no yes ny by (simp add: compute_dict verdict_to_bool_str)
qed

theorem compute_pairs_verdict_with_explanation_witness:
  "[''verdict'' \<mapsto> PStr ''NO'', ''explanation'' \<mapsto> PStr ''X'', ''score'' \<mapsto> PInt 3] ''verdict''
      = Some (PStr ''NO'') \<and>
   [''verdict'' \<mapsto> PStr ''NO'', ''explanation'' \<mapsto> PStr ''X'', ''score'' \<mapsto> PInt 3] ''explanation''
      = Some (PStr ''X'') \<and>
   (\<exists>b. verdict_to_bool (PStr ''NO'') = Inr b \<and>
      compute (PDict [''verdict'' \<mapsto> PStr ''NO'', ''explanation'' \<mapsto> PStr ''X'', ''score'' \<mapsto> PInt 3])
        = Inr (b, PStr ''X'')) \<and>
   compute (PDict [''verdict'' \<mapsto> PStr ''No'', ''explanation'' \<mapsto> PStr ''X'']) = Inr (Some True, PStr ''X'') \<and>
   compute (PDict [''verdict'' \<mapsto> PStr ''Yes'', ''explanation'' \<mapsto> PStr ''Y'']) = Inr (Some False, PStr ''Y'')"
proof -
  have m: "[''verdict'' \<mapsto> PStr ''NO'', ''explanation'' \<mapsto> PStr ''X'', ''score'' \<mapsto> PInt 3] ''verdict''
      = Some (PStr ''NO'')"
   "[''verdict'' \<mapsto> PStr ''NO'', ''explanation'' \<mapsto> PStr ''X'', ''score'' \<mapsto> PInt 3] ''explanation''
      = Some (PStr ''X'')"
    by simp_all
  show ?thesis
    using m compute_pairs_verdict_with_explanation
      [of "[''verdict'' \<mapsto> PStr ''NO'', ''explanation'' \<mapsto> PStr ''X'', ''score'' \<mapsto> PInt 3]"
          "''NO''" "''X''" "''Y''"]
    by blast
qed


text \<open>
  Claim C6. If \<^verbatim>\<open>get_completion_from_messages\<close> raises, \<^verbatim>\<open>evaluate\<close> ends with that error
  after that one call; if \<^verbatim>\<open>extract_json_from_response\<close> raises, it ends with that error;
  if the extracted mapping lacks \<^verbatim>\<open>verdict\<close>, or has a string verdict and lacks
  \<^verbatim>\<open>explanation\<close>, it ends with the \<^verbatim>\<open>KeyError\<close> for that key; and whenever one of the two
  keys is missing it ends with an error, never with a result pair. The client has then been
  called once for a completion and once for the extraction: nothing is retried.
\<close>

theorem evaluate_propagates_errors:
  "(get_completion_from_messages (openAIcompletion (self w))
       (message_list c r (examples (self w))) (remote w) = (Inl e, s) \<longrightarrow>
      fst (evaluate c r w) = Inl e \<and>
      calls (snd (evaluate c r w)) =
        calls w @ [GetCompletion (message_list c r (examples (self w)))]) \<and>
   (get_completion_from_messages (openAIcompletion (self w))
       (message_list c r (examples (self w))) (remote w) = (Inr raw, s) \<longrightarrow>
      calls (snd (evaluate c r w)) =
        calls w @ [GetCompletion (message_list c r (examples (self w))), ExtractJson raw] \<and>
      (extract_json_from_response (openAIcompletion (self w)) raw s = (Inl e, s') \<longrightarrow>
         fst (evaluate c r w) = Inl e) \<and>
      (extract_json_from_response (openAIcompletion (self w)) raw s = (Inr (PDict m), s') \<longrightarrow>
         (m ''verdict'' = None \<longrightarrow> fst (evaluate c r w) = Inl (KeyError ''verdict'')) \<and>
         (m ''verdict'' = Some (PStr v) \<and> m ''explanation'' = None \<longrightarrow>
            fst (evaluate c r w) = Inl (KeyError ''explanation'')) \<and>
         (m ''verdict'' = None \<or> m ''explanation'' = None \<longrightarrow>
            isl (fst (evaluate c r w)))))"
proof (intro conjI impI)
  assume "get_completion_from_messages (openAIcompletion (self w))
       (message_list c r (examples (self w))) (remote w) = (Inl e, s)"
  then show "fst (evaluate c r w) = Inl e"
    and "calls (snd (evaluate c r w)) =
        calls w @ [GetCompletion (message_list c r (examples (self w)))]"
    by (simp_all add: evaluate_get_raises)
next
  assume g: "get_completion_from_messages (openAIcompletion (self w))
       (message_list c r (examples (self w))) (remote w) = (Inr raw, s)"
  obtain x t where x: "extract_json_from_response (openAIcompletion (self w)) raw s = (x, t)"
    by (cases "extract_json_from_response (openAIcompletion (self w)) raw s")
  show "calls (snd (evaluate c r w)) =
      calls w @ [GetCompletion (message_list c r (examples (self w))), ExtractJson raw]"
    using x by (cases x) (simp_all add: evaluate_extract_raises [OF g] evaluate_extracted [OF g])
  {
    assume "extract_json_from_response (openAIcompletion (self w)) raw s = (Inl e, s')"
    then show "fst (evaluate c r w) = Inl e"
      by (simp add: evaluate_extract_raises [OF g])
  }
  {
    assume j: "extract_json_from_response (openAIcompletion (self w)) raw s = (Inr (PDict m), s')"
    have ev: "fst (evaluate c r w) = compute (PDict m)"
      by (simp add: evaluate_extracted [OF g j])
    {
      assume "m ''verdict'' = None"
      then show "fst (evaluate c r w) = Inl (KeyError ''verdict'')"
        by (simp add: ev compute_dict)
    }
    {
      assume "m ''verdict'' = Some (PStr v) \<and> m ''explanation'' = None"
      then show "fst (evaluate c r w) = Inl (KeyError ''explanation'')"
        by (simp add: ev compute_dict verdict_to_bool_str)
    }
    {
      assume "m ''verdict'' = None \<or> m ''explanation'' = None"
      then show "isl (fst (evaluate c r w))"
        by (auto simp: ev compute_dict split: option.splits sum.splits)
    }
  }
qed

text \<open>
  A client that fails the request, one that fails the extraction, and mappings without
  \<^verbatim>\<open>verdict\<close>, without \<^verbatim>\<open>explanation\<close>, and with a verdict that is not a string.
\<close>

theorem evaluate_propagates_errors_witness:
  "fst (evaluate ''ctx'' ''125,000'' (stub_world raising_client))
     = Inl (Raised ''APIConnectionError'') \<and>
   calls (snd (evaluate ''ctx'' ''125,000'' (stub_world raising_client)))
     = [GetCompletion (message_list ''ctx'' ''125,000'' (get_few_shot_examples 139888225590544))] \<and>
   fst (evaluate ''ctx'' ''125,000'' (stub_world unparsable_client))
     = Inl (Raised ''JSONDecodeError'') \<and>
   calls (snd (evaluate ''ctx'' ''125,000'' (stub_world unparsable_client)))
     = [GetCompletion (message_list ''ctx'' ''125,000'' (get_few_shot_examples 139888225590544)),
        ExtractJson ''no json here''] \<and>
   fst (evaluate ''ctx'' ''125,000'' (stub_world (stub_client (PDict [''explanation'' \<mapsto> PStr ''X'']))))
     = Inl (KeyError ''verdict'') \<and>
   fst (evaluate ''ctx'' ''125,000'' (stub_world (stub_client (PDict [''verdict'' \<mapsto> PStr ''No'']))))
     = Inl (KeyError ''explanation'') \<and>
   isl (fst (evaluate ''ctx'' ''125,000'' (stub_world (stub_client (PDict [''verdict'' \<mapsto> PInt 1])))))"
proof -
  let ?c = "''ctx''" and ?r = "''125,000''"
  have g1: "get_completion_from_messages (openAIcompletion (self (stub_world raising_client)))
       (message_list ?c ?r (examples (self (stub_world raising_client))))
       (remote (stub_world raising_client)) = (Inl (Raised ''APIConnectionError''), 1)"
    by (simp only: stub_world_simps raising_client_simps One_nat_def)
  have g2: "get_completion_from_messages (openAIcompletion (self (stub_world unparsable_client)))
       (message_list ?c ?r (examples (self (stub_world unparsable_client))))
       (remote (stub_world unparsable_client)) = (Inr ''no json here'', 1)"
    by (simp only: stub_world_simps unparsable_client_simps One_nat_def)
  have x2: "extract_json_from_response (openAIcompletion (self (stub_world unparsable_client)))
       ''no json here'' 1 = (Inl (Raised ''JSONDecodeError''), 1)"
    by (simp only: stub_world_simps unparsable_client_simps)
  have g3: "get_completion_from_messages (openAIcompletion (self (stub_world (stub_client j))))
       (message_list ?c ?r (examples (self (stub_world (stub_client j)))))
       (remote (stub_world (stub_client j))) = (Inr ''raw completion'', 1)" for j
    by (simp only: stub_world_simps stub_client_simps One_nat_def)
  have x3: "extract_json_from_response (openAIcompletion (self (stub_world (stub_client j))))
       ''raw completion'' 1 = (Inr j, 1)" for j
    by (simp only: stub_world_simps stub_client_simps)
  have m: "[''explanation'' \<mapsto> PStr ''X''] ''verdict'' = None"
    "[''verdict'' \<mapsto> PStr ''No''] ''verdict'' = Some (PStr ''No'')"
    "[''verdict'' \<mapsto> PStr ''No''] ''explanation'' = None"
    "[''verdict'' \<mapsto> PInt 1] ''explanation'' = None"
    by simp_all
  note t = evaluate_propagates_errors
  show ?thesis
    using g1 t [where w = "stub_world raising_client" and c = ?c and r = ?r
        and e = "Raised ''APIConnectionError''" and s = 1]
      g2 x2 t [where w = "stub_world unparsable_client" and c = ?c and r = ?r
        and e = "Raised ''JSONDecodeError''" and s = 1 and s' = 1 and raw = "''no json here''"]
      g3 [of "PDict [''explanation'' \<mapsto> PStr ''X'']"] x3 [of "PDict [''explanation'' \<mapsto> PStr ''X'']"]
      t [where w = "stub_world (stub_client (PDict [''explanation'' \<mapsto> PStr ''X'']))"
        and c = ?c and r = ?r and s = 1 and s' = 1 and raw = "''raw completion''"
        and m = "[''explanation'' \<mapsto> PStr ''X'']"]
      g3 [of "PDict [''verdict'' \<mapsto> PStr ''No'']"] x3 [of "PDict [''verdict'' \<mapsto> PStr ''No'']"]
      t [where w = "stub_world (stub_client (PDict [''verdict'' \<mapsto> PStr ''No'']))"
        and c = ?c and r = ?r and s = 1 and s' = 1 and raw = "''raw completion''"
        and m = "[''verdict'' \<mapsto> PStr ''No'']" and v = "''No''"]
      g3 [of "PDict [''verdict'' \<mapsto> PInt 1]"] x3 [of "PDict [''verdict'' \<mapsto> PInt 1]"]
      t [where w = "stub_world (stub_client (PDict [''verdict'' \<mapsto> PInt 1]))"
        and c = ?c and r = ?r and s = 1 and s' = 1 and raw = "''raw completion''"
        and m = "[''verdict'' \<mapsto> PInt 1]"]
      m
    by (simp add: stub_world_simps)
qed


text \<open>
  Claim C8. The examples text and the client held by the instance are set by
  \<^verbatim>\<open>__init__\<close>, and a call of \<^verbatim>\<open>evaluate\<close> leaves the instance as it was, both fields
  included; after any run of calls the instance is still the one \<^verbatim>\<open>__init__\<close> made.
\<close>

theorem evaluate_leaves_instance_unchanged:
  "self (snd (evaluate c r w)) = self w \<and>
   examples (self (snd (evaluate c r w))) = examples (self w) \<and>
   openAIcompletion (self (snd (evaluate c r w))) = openAIcompletion (self w) \<and>
   self (evaluate_many qs w) = self w \<and>
   examples (init new_client model open_ai_key address) = get_few_shot_examples address \<and>
   openAIcompletion (init new_client model open_ai_key address) = new_client model open_ai_key \<and>
   self (evaluate_many qs
      \<lparr>self = init new_client model open_ai_key address, remote = s, calls = []\<rparr>)
     = \<lparr>openAIcompletion = new_client model open_ai_key,
        examples = get_few_shot_examples address\<rparr>"
proof -
  have "self (evaluate_many qs
      \<lparr>self = init new_client model open_ai_key address, remote = s, calls = []\<rparr>)
     = init new_client model open_ai_key address"
    by (simp add: self_after_evaluate_many)
  then show ?thesis
    using self_after_evaluate [of c r w] self_after_evaluate_many [of qs w]
    by (simp add: init_def)
qed

text \<open>
  Claim C10. \<^verbatim>\<open>compute\<close> depends only on what the mapping holds under \<^verbatim>\<open>verdict\<close> and
  \<^verbatim>\<open>explanation\<close>: two mappings that agree on these two keys give the same result,
  whatever else they hold.
\<close>

theorem compute_depends_on_two_keys:
  assumes "m1 ''verdict'' = m2 ''verdict''" and "m1 ''explanation'' = m2 ''explanation''"
  shows "compute (PDict m1) = compute (PDict m2)"
  unfolding compute_dict assms by (rule refl)

theorem compute_depends_on_two_keys_witness:
  "[''verdict'' \<mapsto> PStr ''No'', ''explanation'' \<mapsto> PStr ''X''] ''verdict'' =
     [''model'' \<mapsto> PStr ''gpt-4'', ''verdict'' \<mapsto> PStr ''No'', ''explanation'' \<mapsto> PStr ''X'',
      ''tokens'' \<mapsto> PInt 17] ''verdict'' \<and>
   [''verdict'' \<mapsto> PStr ''No'', ''explanation'' \<mapsto> PStr ''X''] ''explanation'' =
     [''model'' \<mapsto> PStr ''gpt-4'', ''verdict'' \<mapsto> PStr ''No'', ''explanation'' \<mapsto> PStr ''X'',
      ''tokens'' \<mapsto> PInt 17] ''explanation'' \<and>
   [''verdict'' \<mapsto> PStr ''No'', ''explanation'' \<mapsto> PStr ''X''] ''tokens'' \<noteq>
     [''model'' \<mapsto> PStr ''gpt-4'', ''verdict'' \<mapsto> PStr ''No'', ''explanation'' \<mapsto> PStr ''X'',
      ''tokens'' \<mapsto> PInt 17] ''tokens'' \<and>
   compute (PDict [''verdict'' \<mapsto> PStr ''No'', ''explanation'' \<mapsto> PStr ''X'']) =
     compute (PDict [''model'' \<mapsto> PStr ''gpt-4'', ''verdict'' \<mapsto> PStr ''No'',
                     ''explanation'' \<mapsto> PStr ''X'', ''tokens'' \<mapsto> PInt 17])"
proof -
  let ?a = "[''verdict'' \<mapsto> PStr ''No'', ''explanation'' \<mapsto> PStr ''X'']"
  let ?b = "[''model'' \<mapsto> PStr ''gpt-4'', ''verdict'' \<mapsto> PStr ''No'', ''explanation'' \<mapsto> PStr ''X'',
      ''tokens'' \<mapsto> PInt 17]"
  have v: "?a ''verdict'' = ?b ''verdict''" and x: "?a ''explanation'' = ?b ''explanation''"
    and t: "?a ''tokens'' \<noteq> ?b ''tokens''"
    by simp_all
  show ?thesis
    using v x t compute_depends_on_two_keys [OF v x] by blast
qed

text \<open>
  Claim C9, as amended. The examples text returned by \<^verbatim>\<open>get_few_shot_examples\<close> is the
  default string form of the instance, \<^verbatim>\<open><module.class object at 0x...>\<close>, whatever the
  address, so it contains none of the example's context, its response \<^verbatim>\<open>125,000\<close>, its
  eval_result \<^verbatim>\<open>No\<close> and its eval_reason as a substring. The rendered user message still
  contains \<^verbatim>\<open>No\<close>, which the template spells in \<^verbatim>\<open>(Yes/No)\<close>. It contains the example's
  context or its response only if the caller's context or response contains it, and the
  eval_reason only if the caller's context or response, followed by the full stop that
  the template puts after it, contains it.
\<close>

theorem examples_text_is_default_repr:
  "get_few_shot_examples a =
     ''<redeval.evaluators.faithfulness.FewShotExampleFaithfulness object at 0x'' @ hex a @ ''>'' \<and>
   \<not> sublist (example_context example1) (get_few_shot_examples a) \<and>
   \<not> sublist (example_response example1) (get_few_shot_examples a) \<and>
   \<not> sublist (eval_result example1) (get_few_shot_examples a) \<and>
   \<not> sublist (eval_reason example1) (get_few_shot_examples a) \<and>
   format_str USER_MESSAGE_TEMPLATE [c, r, get_few_shot_examples a]
     = Inr (user_message_text c r (get_few_shot_examples a)) \<and>
   sublist (eval_result example1) (user_message_text c r (get_few_shot_examples a)) \<and>
   (sublist (example_context example1) (user_message_text c r (get_few_shot_examples a)) \<longrightarrow>
      sublist (example_context example1) c \<or> sublist (example_context example1) r) \<and>
   (sublist (example_response example1) (user_message_text c r (get_few_shot_examples a)) \<longrightarrow>
      sublist (example_response example1) c \<or> sublist (example_response example1) r) \<and>
   (sublist (eval_reason example1) (user_message_text c r (get_few_shot_examples a)) \<longrightarrow>
      sublist (eval_reason example1) (c @ ''.'') \<or> sublist (eval_reason example1) (r @ ''.''))"
proof -
  let ?e = "get_few_shot_examples a"
  have block: "\<not> sublist w (tpl_to_examples @ ?e @ tpl_end)"
    if "p \<in> set w" "p \<notin> set tpl_to_examples" "p \<notin> set ?e" "p \<notin> set tpl_end" for w p
    using that by (intro not_sublist_pivot [of p w]) simp_all
  have ctx: "sublist (example_context example1) c \<or> sublist (example_context example1) r"
    if s: "sublist (example_context example1) (user_message_text c r ?e)"
  proof -
    have "sublist (example_context example1) (c @ ''.'') \<or>
        sublist (example_context example1) (r @ ''.'')"
      using field_facts(1,2,4,5)
        not_sublist_pivot [OF field_facts(6) pivot_facts(1)]
        not_sublist_pivot [OF field_facts(6) pivot_facts(2)]
        block [OF field_facts(6) pivot_facts(3) pivot_not_in_examples(1) pivot_facts(4)] s
      by (rule user_message_occurrence)
    then show ?thesis
      using sublist_drop_last [OF field_facts(1,3), of c] sublist_drop_last [OF field_facts(1,3), of r]
      by blast
  qed
  have resp: "sublist (example_response example1) c \<or> sublist (example_response example1) r"
    if s: "sublist (example_response example1) (user_message_text c r ?e)"
  proof -
    have "sublist (example_response example1) (c @ ''.'') \<or>
        sublist (example_response example1) (r @ ''.'')"
      using field_facts(7,8,10,11)
        not_sublist_pivot [OF field_facts(13) pivot_facts(9)]
        not_sublist_pivot [OF field_facts(13) pivot_facts(10)]
        response_not_in_examples_block s
      by (rule user_message_occurrence)
    then show ?thesis
      using sublist_drop_last [OF field_facts(7,9), of c] sublist_drop_last [OF field_facts(7,9), of r]
      by blast
  qed
  have reason: "sublist (eval_reason example1) (c @ ''.'') \<or> sublist (eval_reason example1) (r @ ''.'')"
    if s: "sublist (eval_reason example1) (user_message_text c r ?e)"
    using field_facts(15,16,17,18)
      not_sublist_pivot [OF field_facts(19) pivot_facts(5)]
      not_sublist_pivot [OF field_facts(19) pivot_facts(6)]
      block [OF field_facts(19) pivot_facts(7) pivot_not_in_examples(2) pivot_facts(8)] s
    by (rule user_message_occurrence)
  show ?thesis
    using examples_text [of a] fields_not_in_examples [of a] format_user_message [of c r ?e]
      eval_result_in_message [of c r ?e] ctx resp reason
    by blast
qed

text \<open>
  The three implications at callers' inputs that do carry the text: the example's context
  as context, its response as response, and its eval_reason without the final full stop
  as context, which the template then completes.
\<close>

theorem examples_text_is_default_repr_witness:
  "sublist (example_context example1)
     (user_message_text (example_context example1) ''4,000'' (get_few_shot_examples 139888225590544)) \<and>
   (sublist (example_context example1) (example_context example1) \<or>
    sublist (example_context example1) ''4,000'') \<and>
   sublist (example_response example1)
     (user_message_text ''Y Combinator is a startup accelerator launched in March 2005.'' ''125,000''
        (get_few_shot_examples 139888225590544)) \<and>
   (sublist (example_response example1) ''Y Combinator is a startup accelerator launched in March 2005.'' \<or>
    sublist (example_response example1) ''125,000'') \<and>
   sublist (eval_reason example1)
     (user_message_text ''The context does not contain any information to substantiate the response''
        ''No'' (get_few_shot_examples 139888225590544)) \<and>
   (sublist (eval_reason example1)
      (''The context does not contain any information to substantiate the response'' @ ''.'') \<or>
    sublist (eval_reason example1) (''No'' @ ''.''))"
proof -
  let ?e = "get_few_shot_examples 139888225590544"
  let ?c = "''Y Combinator is a startup accelerator launched in March 2005.''"
  let ?t = "''The context does not contain any information to substantiate the response''"
  have 1: "sublist (example_context example1) (user_message_text (example_context example1) ''4,000'' ?e)"
    by (rule message_contains_context)
  have "example_response example1 = ''125,000''" by (simp add: example1_def)
  then have 2: "sublist (example_response example1) (user_message_text ?c ''125,000'' ?e)"
    using message_contains_response [of "''125,000''" ?c ?e] by simp
  have "eval_reason example1 = ?t @ ''.''" by (simp add: example1_def)
  then have 3: "sublist (eval_reason example1) (user_message_text ?t ''No'' ?e)"
    using message_contains_context_stop [of ?t "''No''" ?e] by simp
  show ?thesis
    using 1 2 3
      examples_text_is_default_repr [of 139888225590544 "example_context example1" "''4,000''"]
      examples_text_is_default_repr [of 139888225590544 ?c "''125,000''"]
      examples_text_is_default_repr [of 139888225590544 ?t "''No''"]
    by blast
qed

text \<open>
  The claim as it was stated fails on the run of the specification's own scenario: the
  examples text is the bare object form, and the user message rendered with it contains
  both the example's eval_result and the example's response.
\<close>

theorem user_message_contains_example_values:
  "get_few_shot_examples 139888225590544 =
     ''<redeval.evaluators.faithfulness.FewShotExampleFaithfulness object at 0x7f3a43fe9d10>'' \<and>
   format_str USER_MESSAGE_TEMPLATE
     [''Y Combinator is a startup accelerator launched in March 2005.'', ''125,000'',
      get_few_shot_examples 139888225590544]
     = Inr (user_message_text ''Y Combinator is a startup accelerator launched in March 2005.''
              ''125,000'' (get_few_shot_examples 139888225590544)) \<and>
   eval_result example1 = ''No'' \<and>
   sublist (eval_result example1)
     (user_message_text ''Y Combinator is a startup accelerator launched in March 2005.''
        ''125,000'' (get_few_shot_examples 139888225590544)) \<and>
   example_response example1 = ''125,000'' \<and>
   sublist (example_response example1)
     (user_message_text ''Y Combinator is a startup accelerator launched in March 2005.''
        ''125,000'' (get_few_shot_examples 139888225590544))"
proof -
  let ?e = "get_few_shot_examples 139888225590544"
  let ?c = "''Y Combinator is a startup accelerator launched in March 2005.''"
  have e: "?e = ''<redeval.evaluators.faithfulness.FewShotExampleFaithfulness object at 0x7f3a43fe9d10>''"
    by (simp add: examples_text hex_example)
  have r: "example_response example1 = ''125,000''" and n: "eval_result example1 = ''No''"
    by (simp_all add: example1_def)
  have "sublist (example_response example1) (user_message_text ?c ''125,000'' ?e)"
    using message_contains_response [of "''125,000''" ?c ?e] r by simp
  then show ?thesis
    using e r n format_user_message [of ?c "''125,000''" ?e] eval_result_in_message [of ?c "''125,000''" ?e]
    by blast
qed

end
